theory Spec2Isabelle
  imports Main "HOL-Library.Word"
begin

unbundle bit_operations_syntax

section \<open>PBKDF2 tester: data model\<close>

text \<open>
  The program is one C++ file, \<^verbatim>\<open>PBKDF2.cpp\<close>. Its functions are embedded one by one, with
  the names of the source.

  \<^item> \<open>TOCTET\<close> (\<^verbatim>\<open>typedef UCHAR TOCTET\<close>) is an 8-bit word.
  \<^item> A \<^verbatim>\<open>TCHAR\<close> string is a \<open>string\<close>: the characters before the terminating NUL. In
    a Unicode build a \<^verbatim>\<open>TCHAR\<close> is a UTF-16 code unit, and the texts of the model are those
    of code units below 256; where the build matters (\<^verbatim>\<open>sizeof(TCHAR)\<close>, the bytes of a
    text in memory, the conversion to UTF-8) it is a parameter, see \<open>platform\<close>. A
    pointer/length pair such as \<^verbatim>\<open>(hexText, hexTextSize)\<close> or
    \<^verbatim>\<open>(byteBuffer, bufferSize)\<close> is one list; the callers in the file always pass the
    length of the data the pointer addresses.
  \<^item> A block obtained from \<^verbatim>\<open>malloc\<close> is a \<open>buffer\<close>: its capacity in elements and the
    cells written so far. Every function of the file fills its block front to back through
    a pointer that is advanced after each store, so the cells written are a prefix of the
    block; a store outside the block is the fault \<open>OutOfBounds\<close>.
  \<^item> Whether \<^verbatim>\<open>malloc\<close> grants a request is not decided by the program: each function
    that allocates takes an oracle \<open>malloc :: nat \<Rightarrow> bool\<close> on the number of bytes asked for.
  \<^item> \<^verbatim>\<open>_stprintf_s\<close> and \<^verbatim>\<open>_tcscpy_s\<close> are the bounds-checked CRT functions: when the
    text and its terminator do not fit the size passed, the invalid-parameter handler is
    invoked, which ends the process; that is the fault \<open>InvalidParameter\<close>.
  \<^item> Sizes and counts (\<^verbatim>\<open>SIZE_T\<close>) are \<open>nat\<close>: they count the elements of texts and
    blocks that exist in memory, so the arithmetic on them does not wrap. The casts to
    \<^verbatim>\<open>ULONG\<close> and \<^verbatim>\<open>ULONGLONG\<close> are written out. An \<^verbatim>\<open>int\<close> is an \<open>int\<close> within the
    bounds the C library keeps it in.
  \<^item> A function that reports through \<^verbatim>\<open>errorBuffer\<close> and output parameters returns a
    record of what it leaves in them; every function resets the error buffer first, so the
    buffer's content on entry is no argument.
\<close>

type_synonym octet = "8 word"

datatype fault = InvalidParameter | OutOfBounds

record 'a buffer =
  capacity :: nat
  cells :: "'a list"

definition NUL :: char where
  "NUL = CHR 0x00"

definition alloc :: "(nat \<Rightarrow> bool) \<Rightarrow> nat \<Rightarrow> nat \<Rightarrow> 'a buffer option" where
  \<comment> \<open>\<^verbatim>\<open>malloc(bytes)\<close> for a block of \<open>n\<close> elements; \<open>None\<close> is the NULL pointer\<close>
  "alloc malloc bytes n =
     (if malloc bytes then Some \<lparr>capacity = n, cells = []\<rparr> else None)"

definition put :: "'a \<Rightarrow> 'a buffer \<Rightarrow> fault + 'a buffer" where
  \<comment> \<open>\<^verbatim>\<open>*p = v; p++;\<close> with \<open>p\<close> standing behind the cells written so far\<close>
  "put v b =
     (if length (cells b) < capacity b then Inr (b\<lparr>cells := cells b @ [v]\<rparr>)
      else Inl OutOfBounds)"

definition put_back :: "'a \<Rightarrow> 'a buffer \<Rightarrow> fault + 'a buffer" where
  \<comment> \<open>\<^verbatim>\<open>p--; *p = v;\<close>: the last cell written is overwritten; with no cell written the
      store lands in front of the block\<close>
  "put_back v b =
     (case cells b of
        [] \<Rightarrow> Inl OutOfBounds
      | _ # _ \<Rightarrow> Inr (b\<lparr>cells := butlast (cells b) @ [v]\<rparr>))"

definition c_string :: "char buffer \<Rightarrow> string" where
  \<comment> \<open>the text a NUL-terminated block holds\<close>
  "c_string b = takeWhile (\<lambda>c. c \<noteq> NUL) (cells b)"

subsection \<open>Formatting\<close>

fun decimal :: "nat \<Rightarrow> string" where
  "decimal n =
     (if n < 10 then [''0123456789'' ! n]
      else decimal (n div 10) @ [''0123456789'' ! (n mod 10)])"

declare decimal.simps [simp del]

definition format_d :: "int \<Rightarrow> string" where
  \<comment> \<open>\<^verbatim>\<open>%d\<close>\<close>
  "format_d i = (if i < 0 then CHR ''-'' # decimal (nat (- i)) else decimal (nat i))"

fun hexadecimal :: "nat \<Rightarrow> string" where
  "hexadecimal n =
     (if n < 16 then [''0123456789abcdef'' ! n]
      else hexadecimal (n div 16) @ [''0123456789abcdef'' ! (n mod 16)])"

declare hexadecimal.simps [simp del]

definition format_x :: "int \<Rightarrow> string" where
  \<comment> \<open>\<^verbatim>\<open>%x\<close> of a 32-bit value: its unsigned reading, in lower-case hexadecimal\<close>
  "format_x i = hexadecimal (nat (i mod 2 ^ 32))"

definition stprintf_s :: "nat \<Rightarrow> string \<Rightarrow> fault + string" where
  \<comment> \<open>\<^verbatim>\<open>_stprintf_s(buffer, sizeOfBuffer, ...)\<close>, given the formatted text\<close>
  "stprintf_s sizeOfBuffer text =
     (if length text < sizeOfBuffer then Inr text else Inl InvalidParameter)"

section \<open>Hexadecimal conversion\<close>

definition HEX_DIGITS :: string where
  "HEX_DIGITS = ''0123456789ABCDEF''"

fun bytesToHex_loop :: "octet list \<Rightarrow> char buffer \<Rightarrow> fault + char buffer" where
  \<comment> \<open>the loop of line 209, one round for each byte: its counter \<^verbatim>\<open>j\<close> only counts the
      rounds\<close>
  "bytesToHex_loop [] b = Inr b"
| "bytesToHex_loop (x # xs) b =
     (let v = unat (x AND 0xff) in
      case put (HEX_DIGITS ! (drop_bit 4 v)) b of
        Inl f \<Rightarrow> Inl f
      | Inr b1 \<Rightarrow>
     (case put (HEX_DIGITS ! (v AND 0x0f)) b1 of
        Inl f \<Rightarrow> Inl f
      | Inr b2 \<Rightarrow>
     (case put CHR '' '' b2 of
        Inl f \<Rightarrow> Inl f
      | Inr b3 \<Rightarrow> bytesToHex_loop xs b3)))"

definition bytesToHex :: "(nat \<Rightarrow> bool) \<Rightarrow> nat \<Rightarrow> octet list \<Rightarrow> fault + string option" where
  \<comment> \<open>\<open>sizeof_TCHAR\<close> is \<^verbatim>\<open>sizeof(TCHAR)\<close>; the result \<open>None\<close> is the NULL pointer\<close>
  "bytesToHex malloc sizeof_TCHAR byteBuffer =
     (let resultSize = length byteBuffer * 3 in
      case alloc malloc (resultSize * sizeof_TCHAR) resultSize of
        None \<Rightarrow> Inr None
      | Some pResult \<Rightarrow>
         (case bytesToHex_loop byteBuffer pResult of
            Inl f \<Rightarrow> Inl f
          | Inr b \<Rightarrow>
             (case put_back NUL b of
                Inl f \<Rightarrow> Inl f
              | Inr b' \<Rightarrow> Inr (Some (c_string b')))))"

definition getHexCharValue :: "char \<Rightarrow> octet" where
  \<comment> \<open>\<^verbatim>\<open>(int) hexChar\<close> is the character's code. A code of 128 or more, which a signed
      \<^verbatim>\<open>char\<close> reads as negative, falls through to 255 on either reading; the nested
      \<^verbatim>\<open>if\<close>s without \<^verbatim>\<open>else\<close> fall through to the last line\<close>
  "getHexCharValue hexChar =
     (let workValue = int (of_char hexChar) - int (of_char CHR ''0'') in
      if workValue \<ge> 0 then
        if workValue \<le> 9 then word_of_int workValue
        else
          (let workValue = workValue - (int (of_char CHR ''A'') - int (of_char CHR ''0'') - 10) in
           if workValue \<ge> 10 then
             if workValue \<le> 15 then word_of_int workValue
             else
               (let workValue = workValue - (int (of_char CHR ''a'') - int (of_char CHR ''A'')) in
                if workValue \<ge> 10 then
                  if workValue \<le> 15 then word_of_int workValue
                  else 255
                else 255)
           else 255)
      else 255)"

definition invalid_hex_message :: "char \<Rightarrow> nat \<Rightarrow> string \<Rightarrow> string" where
  \<comment> \<open>the format of line 307 with its three arguments\<close>
  "invalid_hex_message c actPos hexText =
     ''Invalid hex character '' @ [CHR 0x27] @ [c] @ [CHR 0x27] @ '' at position '' @
     decimal actPos @ '' of hex string '' @ [CHR 0x22] @ hexText @ [CHR 0x22, CHR 0x0A]"

text \<open>
  The loop of line 291 over the characters that are left, with its variables \<^verbatim>\<open>actPos\<close>,
  \<^verbatim>\<open>isLowNibble\<close>, \<^verbatim>\<open>byteValue\<close> and the block behind \<^verbatim>\<open>pActByte\<close>. It returns the block
  and the error buffer; \<^verbatim>\<open>break\<close> is the branch that does not go on.
\<close>

fun hexStringToByteArray_loop ::
  "nat \<Rightarrow> string \<Rightarrow> string \<Rightarrow> nat \<Rightarrow> bool \<Rightarrow> octet \<Rightarrow> octet buffer \<Rightarrow>
   fault + (octet buffer \<times> string)"
where
  "hexStringToByteArray_loop errorBufferSize hexText [] actPos isLowNibble byteValue b =
     Inr (b, [])"
| "hexStringToByteArray_loop errorBufferSize hexText (c # cs) actPos isLowNibble byteValue b =
     (let actValue = getHexCharValue c in
      if actValue \<le> 15 then
        (if isLowNibble then
           (case put (byteValue OR actValue) b of
              Inl f \<Rightarrow> Inl f
            | Inr b' \<Rightarrow>
                hexStringToByteArray_loop errorBufferSize hexText cs (actPos + 1)
                  (\<not> isLowNibble) byteValue b')
         else
           hexStringToByteArray_loop errorBufferSize hexText cs (actPos + 1)
             (\<not> isLowNibble) (push_bit 4 actValue) b)
      else
        (case stprintf_s errorBufferSize (invalid_hex_message c actPos hexText) of
           Inl f \<Rightarrow> Inl f
         | Inr msg \<Rightarrow> Inr (b, msg)))"

record reported =
  errorBuffer :: string

record hex_result = reported +
  returned :: "octet buffer option"
  byteArraySize :: nat

definition hexStringToByteArray ::
  "(nat \<Rightarrow> bool) \<Rightarrow> string \<Rightarrow> nat \<Rightarrow> nat \<Rightarrow> fault + hex_result"
where
  \<comment> \<open>\<open>byteArraySize0\<close> is what \<^verbatim>\<open>*byteArraySize\<close> holds before the call\<close>
  "hexStringToByteArray malloc hexText byteArraySize0 errorBufferSize =
     (let hexTextSize = length hexText;
          isHexTextSizeOdd = (hexTextSize AND 1 \<noteq> 0);
          allocationSize = drop_bit 1 hexTextSize;
          allocationSize = (if isHexTextSizeOdd then allocationSize + 1 else allocationSize)
      in
      case alloc malloc allocationSize allocationSize of
        Some result \<Rightarrow>
          (case hexStringToByteArray_loop errorBufferSize hexText hexText 1
                  isHexTextSizeOdd 0 result of
             Inl f \<Rightarrow> Inl f
           | Inr (b, msg) \<Rightarrow>
               Inr \<lparr>errorBuffer = msg, returned = Some b, byteArraySize = allocationSize\<rparr>)
      | None \<Rightarrow>
          (case stprintf_s errorBufferSize
                  (''Could not allocate '' @ decimal byteArraySize0 @
                   '' bytes for hex conversion byte array'' @ [CHR 0x0A]) of
             Inl f \<Rightarrow> Inl f
           | Inr msg \<Rightarrow>
               Inr \<lparr>errorBuffer = msg, returned = None, byteArraySize = byteArraySize0\<rparr>))"

definition safeHexStringToByteArray ::
  "(nat \<Rightarrow> bool) \<Rightarrow> string \<Rightarrow> nat \<Rightarrow> nat \<Rightarrow> fault + hex_result"
where
  "safeHexStringToByteArray malloc hexText byteArraySize0 errorBufferSize =
     hexStringToByteArray malloc hexText byteArraySize0 errorBufferSize"

section \<open>Integer arguments\<close>

text \<open>
  \<^verbatim>\<open>_ttoi\<close> is the C library's \<^verbatim>\<open>atoi\<close> (\<^verbatim>\<open>_wtoi\<close> in a Unicode build). As the
  library documents it, it skips leading white space, reads an optional sign and then
  decimal digits up to the first character that is not one, and returns the number read;
  with no digit to read it returns 0 and leaves \<^verbatim>\<open>errno\<close> alone; a number outside the
  range of \<^verbatim>\<open>int\<close> gives \<^verbatim>\<open>INT_MAX\<close> or \<^verbatim>\<open>INT_MIN\<close> and sets \<^verbatim>\<open>errno\<close> to
  \<^verbatim>\<open>ERANGE\<close>. The global \<^verbatim>\<open>errno\<close> is passed in and returned.
\<close>

definition INT_MAX :: int where
  "INT_MAX = 2147483647"

definition INT_MIN :: int where
  "INT_MIN = - 2147483648"

definition ERANGE :: int where
  "ERANGE = 34"

definition isspace_char :: "char \<Rightarrow> bool" where
  "isspace_char c = (c = CHR 0x20 \<or> (9 \<le> (of_char c :: nat) \<and> (of_char c :: nat) \<le> 13))"

definition isdigit_char :: "char \<Rightarrow> bool" where
  "isdigit_char c = (48 \<le> (of_char c :: nat) \<and> (of_char c :: nat) \<le> 57)"

definition ttoi :: "string \<Rightarrow> int \<Rightarrow> int \<times> int" where
  "ttoi str errno0 =
     (let s1 = dropWhile isspace_char str;
          negative = (case s1 of [] \<Rightarrow> False | c # _ \<Rightarrow> c = CHR ''-'');
          s2 = (case s1 of [] \<Rightarrow> [] | c # r \<Rightarrow> if c = CHR ''-'' \<or> c = CHR ''+'' then r else s1);
          n = foldl (\<lambda>a c. 10 * a + (int (of_char c) - 48)) 0 (takeWhile isdigit_char s2);
          v = (if negative then - n else n)
      in if v > INT_MAX then (INT_MAX, ERANGE)
         else if v < INT_MIN then (INT_MIN, ERANGE)
         else (v, errno0))"

record int_result = reported +
  result :: int
  errno :: int

definition quoted :: "string \<Rightarrow> string" where
  \<comment> \<open>\<^verbatim>\<open>\"%s\"\<close>\<close>
  "quoted s = [CHR 0x22] @ s @ [CHR 0x22]"

definition getIntegerArg ::
  "string \<Rightarrow> string \<Rightarrow> int \<Rightarrow> int \<Rightarrow> int \<Rightarrow> nat \<Rightarrow> fault + int_result"
where
  \<comment> \<open>\<open>errno0\<close> is the value of \<^verbatim>\<open>errno\<close> on entry\<close>
  "getIntegerArg pArgName pArg minValue maxValue errno0 errorBufferSize =
     (let (result, errno1) = ttoi pArg errno0 in
      if errno1 \<noteq> 0 then
        (case stprintf_s errorBufferSize
                (quoted pArgName @ '' is not an integer'' @ [CHR 0x0A]) of
           Inl f \<Rightarrow> Inl f
         | Inr msg \<Rightarrow> Inr \<lparr>errorBuffer = msg, result = 0, errno = errno1\<rparr>)
      else if result < minValue then
        (case stprintf_s errorBufferSize
                (quoted pArgName @ '' is smaller than minimum value of '' @
                 format_d minValue @ [CHR 0x0A]) of
           Inl f \<Rightarrow> Inl f
         | Inr msg \<Rightarrow> Inr \<lparr>errorBuffer = msg, result = 0, errno = errno1\<rparr>)
      else if result > maxValue then
        (case stprintf_s errorBufferSize
                (quoted pArgName @ '' is larger than maximum value of '' @
                 format_d maxValue @ [CHR 0x0A]) of
           Inl f \<Rightarrow> Inl f
         | Inr msg \<Rightarrow> Inr \<lparr>errorBuffer = msg, result = 0, errno = errno1\<rparr>)
      else Inr \<lparr>errorBuffer = [], result = result, errno = errno1\<rparr>)"

section \<open>The platform\<close>

text \<open>
  What the program takes from Windows is a parameter of the model: the build
  (\<^verbatim>\<open>_UNICODE\<close> defined or not), the outcome of every \<^verbatim>\<open>malloc\<close> by the place that calls
  it, the two code-page conversions, the three CNG functions and the clock. An algorithm
  handle is stood for by the algorithm's identifier. An \<^verbatim>\<open>NTSTATUS\<close> is an \<open>int\<close>.

  \<^item> \<open>MultiByteToWideChar\<close> is the conversion from the ANSI code page and
    \<open>WideCharToMultiByte\<close> the one to UTF-8: each gives the converted text, whose length is
    the count that the sizing call returns (nothing when the conversion fails).
  \<^item> \<open>BCryptGetProperty\<close> gives the status and the hash length it stores in
    \<^verbatim>\<open>*pDerivedKeySize\<close>.
  \<^item> \<open>BCryptDeriveKeyPBKDF2\<close> takes the algorithm, the password bytes, the salt bytes, the
    iteration count and the size of the key, and gives the status and the bytes it stores
    in the key's block.
  \<^item> \<open>duration_ms\<close> is \<^verbatim>\<open>lround(duration * 1000)\<close>, and \<open>indeterminate\<close> is what the
    variable \<^verbatim>\<open>saltArraySize\<close> holds before it is assigned.
\<close>

datatype site = SaltBytes | PasswordUTF16 | PasswordUTF8 | DerivedKey | SaltText | KeyText

record platform =
  UNICODE :: bool
  malloc :: "site \<Rightarrow> nat \<Rightarrow> bool"
  MultiByteToWideChar :: "string \<Rightarrow> 16 word list"
  WideCharToMultiByte :: "16 word list \<Rightarrow> octet list"
  BCryptOpenAlgorithmProvider :: "string \<Rightarrow> int"
  BCryptGetProperty :: "string \<Rightarrow> int \<times> nat"
  BCryptDeriveKeyPBKDF2 :: "string \<Rightarrow> octet list \<Rightarrow> octet list \<Rightarrow> nat \<Rightarrow> nat \<Rightarrow> int \<times> octet list"
  duration_ms :: int
  indeterminate :: nat

definition sizeof_TCHAR :: "platform \<Rightarrow> nat" where
  "sizeof_TCHAR pf = (if UNICODE pf then 2 else 1)"

definition wide :: "string \<Rightarrow> 16 word list" where
  \<comment> \<open>a \<^verbatim>\<open>TCHAR\<close> string of a Unicode build, as the UTF-16 code units it is\<close>
  "wide s = map (\<lambda>c. of_nat (of_char c)) s"

definition native_bytes :: "platform \<Rightarrow> string \<Rightarrow> octet list" where
  \<comment> \<open>\<^verbatim>\<open>(TOCTET *) text\<close>: the bytes the characters occupy in memory, one per character in
      an ANSI build, two (low byte first) in a Unicode build\<close>
  "native_bytes pf s =
     (if UNICODE pf then concat (map (\<lambda>c. [of_nat (of_char c), 0]) s)
      else map (\<lambda>c. of_nat (of_char c)) s)"

definition int_bytes :: "int \<Rightarrow> octet list" where
  \<comment> \<open>\<^verbatim>\<open>(TOCTET *) &salt\<close> with \<^verbatim>\<open>sizeof(salt)\<close> bytes: an \<^verbatim>\<open>int\<close> in memory, which on
      every Windows target is 32 bits in two's complement, low byte first\<close>
  "int_bytes i =
     (let w = (word_of_int i :: 32 word) in
      [ucast w, ucast (drop_bit 8 w), ucast (drop_bit 16 w), ucast (drop_bit 24 w)])"

definition NT_SUCCESS :: "int \<Rightarrow> bool" where
  "NT_SUCCESS Status = (Status \<ge> 0)"

definition ULONG :: "nat \<Rightarrow> nat" where
  \<comment> \<open>the cast \<^verbatim>\<open>(ULONG)\<close> of a \<^verbatim>\<open>SIZE_T\<close>\<close>
  "ULONG n = n mod 2 ^ 32"

definition ULONGLONG :: "int \<Rightarrow> nat" where
  \<comment> \<open>the cast \<^verbatim>\<open>(ULONGLONG)\<close> of an \<^verbatim>\<open>int\<close>\<close>
  "ULONGLONG i = nat (i mod 2 ^ 64)"

section \<open>Password encoding\<close>

record utf16_result = reported +
  passwordInUTF16 :: "16 word list option"

definition getPasswordUTF16Encoding ::
  "platform \<Rightarrow> string \<Rightarrow> nat \<Rightarrow> fault + utf16_result"
where
  "getPasswordUTF16Encoding pf password errorBufferSize =
     (let pPasswordInUTF16Size = length (MultiByteToWideChar pf password);
          bufferSize = pPasswordInUTF16Size * 2
      in
      if malloc pf PasswordUTF16 bufferSize then
        Inr \<lparr>errorBuffer = [], passwordInUTF16 = Some (MultiByteToWideChar pf password)\<rparr>
      else
        (case stprintf_s errorBufferSize
               (''Could not allocate '' @ decimal bufferSize @
                '' bytes for passwordInUTF16'' @ [CHR 0x0A]) of
           Inl f \<Rightarrow> Inl f
         | Inr msg \<Rightarrow> Inr \<lparr>errorBuffer = msg, passwordInUTF16 = None\<rparr>))"

record utf8_result = reported +
  passwordInUTF8 :: "octet list option"
  passwordInUTF8Size :: nat

definition utf8_of_wide ::
  "platform \<Rightarrow> 16 word list \<Rightarrow> string \<Rightarrow> nat \<Rightarrow> fault + utf8_result"
where
  \<comment> \<open>the steps both builds share: size the UTF-8 text, allocate it, convert into it\<close>
  "utf8_of_wide pf text errorSoFar errorBufferSize =
     (let pPasswordInUTF8Size = length (WideCharToMultiByte pf text) in
      if malloc pf PasswordUTF8 pPasswordInUTF8Size then
        Inr \<lparr>errorBuffer = errorSoFar, passwordInUTF8 = Some (WideCharToMultiByte pf text),
             passwordInUTF8Size = pPasswordInUTF8Size\<rparr>
      else
        (case stprintf_s errorBufferSize
               (''Could not allocate '' @ decimal pPasswordInUTF8Size @
                '' bytes for passwordInUTF8'' @ [CHR 0x0A]) of
           Inl f \<Rightarrow> Inl f
         | Inr msg \<Rightarrow>
             Inr \<lparr>errorBuffer = msg, passwordInUTF8 = None,
                  passwordInUTF8Size = pPasswordInUTF8Size\<rparr>))"

definition getPasswordUTF8Encoding ::
  "platform \<Rightarrow> string \<Rightarrow> nat \<Rightarrow> fault + utf8_result"
where
  \<comment> \<open>on entry \<^verbatim>\<open>*passwordInUTF8\<close> is NULL and \<^verbatim>\<open>*pPasswordInUTF8Size\<close> is 0, as the one
      caller sets them\<close>
  "getPasswordUTF8Encoding pf password errorBufferSize =
     (if UNICODE pf then utf8_of_wide pf (wide password) [] errorBufferSize
      else
        (case getPasswordUTF16Encoding pf password errorBufferSize of
           Inl f \<Rightarrow> Inl f
         | Inr r16 \<Rightarrow>
            (case passwordInUTF16 r16 of
               Some passwordInUnicode \<Rightarrow>
                 utf8_of_wide pf passwordInUnicode (errorBuffer r16) errorBufferSize
             | None \<Rightarrow>
                 Inr \<lparr>errorBuffer = errorBuffer r16, passwordInUTF8 = None,
                      passwordInUTF8Size = 0\<rparr>)))"

section \<open>Key derivation\<close>

record pbkdf2_result = reported +
  pDerivedKey :: "octet list option"
  derivedKeySize :: nat

definition apiErrorMessage :: "int \<Rightarrow> string \<Rightarrow> string" where
  \<comment> \<open>\<^verbatim>\<open>Error 0x%x returned by %s\n\<close>\<close>
  "apiErrorMessage status name =
     ''Error 0x'' @ format_x status @ '' returned by '' @ name @ [CHR 0x0A]"

definition calculatePBKDF2 ::
  "platform \<Rightarrow> string \<Rightarrow> octet list \<Rightarrow> nat \<Rightarrow> int \<Rightarrow> octet list \<Rightarrow> nat \<Rightarrow> nat \<Rightarrow>
   fault + pbkdf2_result"
where
  \<comment> \<open>on entry \<^verbatim>\<open>*ppDerivedKey\<close> is NULL and \<^verbatim>\<open>*pDerivedKeySize\<close> is 0, as the one caller
      sets them; \<open>pSalt\<close> and \<open>password\<close> are the bytes the two pointers address\<close>
  "calculatePBKDF2 pf pHashType pSalt saltSize iterationCount password passwordSize
      errorBufferSize =
     (let status = BCryptOpenAlgorithmProvider pf pHashType in
      if NT_SUCCESS status then
        (let (status, pDerivedKeySize) = BCryptGetProperty pf pHashType in
         if NT_SUCCESS status then
           (if malloc pf DerivedKey pDerivedKeySize then
              (let (status, key) =
                     BCryptDeriveKeyPBKDF2 pf pHashType
                       (take (ULONG passwordSize) password) (take (ULONG saltSize) pSalt)
                       (ULONGLONG iterationCount) (ULONG pDerivedKeySize)
               in
               if \<not> NT_SUCCESS status then
                 (case stprintf_s errorBufferSize
                         (apiErrorMessage status ''BCryptDeriveKeyPBKDF2'') of
                    Inl f \<Rightarrow> Inl f
                  | Inr msg \<Rightarrow>
                      Inr \<lparr>errorBuffer = msg, pDerivedKey = Some key,
                           derivedKeySize = pDerivedKeySize\<rparr>)
               else
                 Inr \<lparr>errorBuffer = [], pDerivedKey = Some key,
                      derivedKeySize = pDerivedKeySize\<rparr>)
            else
              (case stprintf_s errorBufferSize
                      (''Could not allocate '' @ decimal pDerivedKeySize @
                       '' bytes for hash value'' @ [CHR 0x0A]) of
                 Inl f \<Rightarrow> Inl f
               | Inr msg \<Rightarrow>
                   Inr \<lparr>errorBuffer = msg, pDerivedKey = None,
                        derivedKeySize = pDerivedKeySize\<rparr>))
         else
           (case stprintf_s errorBufferSize (apiErrorMessage status ''BCryptGetProperty'') of
              Inl f \<Rightarrow> Inl f
            | Inr msg \<Rightarrow> Inr \<lparr>errorBuffer = msg, pDerivedKey = None, derivedKeySize = 0\<rparr>))
      else
        (case stprintf_s errorBufferSize
                (apiErrorMessage status ''BCryptOpenAlgorithmProvider'') of
           Inl f \<Rightarrow> Inl f
         | Inr msg \<Rightarrow> Inr \<lparr>errorBuffer = msg, pDerivedKey = None, derivedKeySize = 0\<rparr>))"

section \<open>The main program\<close>

definition MIN_HASH_TYPE :: int where "MIN_HASH_TYPE = 1"
definition MAX_HASH_TYPE :: int where "MAX_HASH_TYPE = 5"
definition MIN_SALT :: int where "MIN_SALT = 0"
definition MAX_SALT :: int where "MAX_SALT = INT_MAX"
definition MIN_ITERATION_COUNT :: int where "MIN_ITERATION_COUNT = 1"
definition MAX_ITERATION_COUNT :: int where "MAX_ITERATION_COUNT = 5000000"

text \<open>The algorithm identifiers of \<^verbatim>\<open>bcrypt.h\<close>.\<close>

definition BCRYPT_SHA1_ALGORITHM :: string where "BCRYPT_SHA1_ALGORITHM = ''SHA1''"
definition BCRYPT_SHA256_ALGORITHM :: string where "BCRYPT_SHA256_ALGORITHM = ''SHA256''"
definition BCRYPT_SHA384_ALGORITHM :: string where "BCRYPT_SHA384_ALGORITHM = ''SHA384''"
definition BCRYPT_SHA512_ALGORITHM :: string where "BCRYPT_SHA512_ALGORITHM = ''SHA512''"

definition HASH_ALGORITHM :: "string list" where
  "HASH_ALGORITHM =
     [BCRYPT_SHA1_ALGORITHM, BCRYPT_SHA256_ALGORITHM, BCRYPT_SHA384_ALGORITHM,
      BCRYPT_SHA512_ALGORITHM, BCRYPT_SHA512_ALGORITHM]"

text \<open>
  What a run leaves behind: the value \<^verbatim>\<open>_tmain\<close> returns, the texts written to the two
  handles in order, and the blocks freed under the label \<^verbatim>\<open>Exit\<close>, each named by the place
  that allocated it.
\<close>

record outcome =
  returnValue :: int
  stdout :: "string list"
  stderr :: "string list"
  released :: "site list"

text \<open>
  The local variables of \<^verbatim>\<open>_tmain\<close> that live across its numbered steps. A pointer that is
  only compared with NULL and freed is a \<open>bool\<close>: whether it is not NULL. \<open>the_errno\<close> is the
  C library's global \<^verbatim>\<open>errno\<close>, which is 0 when the program starts.
\<close>

record locals =
  doItRight :: bool
  hashType :: int
  salt :: int
  saltArray :: "octet list"
  saltArraySize :: nat
  releaseSalt :: bool
  iterationCount :: int
  passwordBytes :: "octet list"
  passwordBytesSize :: nat
  releasePassword :: bool
  the_errno :: int

definition Exit :: "int \<Rightarrow> string list \<Rightarrow> string list \<Rightarrow> bool \<Rightarrow> bool \<Rightarrow> bool \<Rightarrow> outcome" where
  \<comment> \<open>the code under the label \<^verbatim>\<open>Exit\<close>; the three flags say which of \<^verbatim>\<open>releasePassword\<close>,
      \<^verbatim>\<open>releaseSalt\<close> and \<^verbatim>\<open>releaseDerivedKey\<close> are not NULL\<close>
  "Exit rv out err password_owned salt_owned key_owned =
     \<lparr>returnValue = rv, stdout = out, stderr = err,
      released =
        (if password_owned then [PasswordUTF8] else []) @
        (if salt_owned then [SaltBytes] else []) @
        (if key_owned then [DerivedKey] else [])\<rparr>"

definition errorBufferSize_main :: nat where
  \<comment> \<open>\<^verbatim>\<open>const SIZE_T errorBufferSize = 499\<close>\<close>
  "errorBufferSize_main = 499"

definition get_hash_type :: "string list \<Rightarrow> locals \<Rightarrow> fault + (outcome + locals)" where
  \<comment> \<open>1. Get the hash type\<close>
  "get_hash_type argv l =
     (case getIntegerArg ''hashType'' (argv ! 1) MIN_HASH_TYPE MAX_HASH_TYPE (the_errno l)
             errorBufferSize_main of
        Inl f \<Rightarrow> Inl f
      | Inr r \<Rightarrow>
          if errorBuffer r \<noteq> [] then Inr (Inl (Exit 2 [] [errorBuffer r] False False False))
          else Inr (Inr (l\<lparr>hashType := result r - 1, the_errno := errno r\<rparr>)))"

definition get_salt :: "platform \<Rightarrow> string list \<Rightarrow> locals \<Rightarrow> fault + (outcome + locals)" where
  \<comment> \<open>2. Get the salt\<close>
  "get_salt pf argv l =
     (if doItRight l then
        (case safeHexStringToByteArray (malloc pf SaltBytes) (argv ! 2) (indeterminate pf)
                errorBufferSize_main of
           Inl f \<Rightarrow> Inl f
         | Inr r \<Rightarrow>
             (let saltArray = (case returned r of None \<Rightarrow> [] | Some b \<Rightarrow> cells b);
                  releaseSalt = (returned r \<noteq> None)
              in
              if errorBuffer r \<noteq> [] then
                Inr (Inl (Exit 2 [] [errorBuffer r] False releaseSalt False))
              else
                Inr (Inr (l\<lparr>saltArray := saltArray, saltArraySize := byteArraySize r,
                            releaseSalt := releaseSalt\<rparr>))))
      else
        (case getIntegerArg ''salt'' (argv ! 2) MIN_SALT MAX_SALT (the_errno l)
                errorBufferSize_main of
           Inl f \<Rightarrow> Inl f
         | Inr r \<Rightarrow>
             if errorBuffer r \<noteq> [] then
               Inr (Inl (Exit 2 [] [errorBuffer r] False False False))
             else
               Inr (Inr (l\<lparr>salt := result r, saltArraySize := 4,
                           saltArray := int_bytes (result r), the_errno := errno r\<rparr>))))"

definition get_iteration_count :: "string list \<Rightarrow> locals \<Rightarrow> fault + (outcome + locals)" where
  \<comment> \<open>3. Get the iteration count\<close>
  "get_iteration_count argv l =
     (case getIntegerArg ''iterationCount'' (argv ! 3) MIN_ITERATION_COUNT MAX_ITERATION_COUNT
             (the_errno l) errorBufferSize_main of
        Inl f \<Rightarrow> Inl f
      | Inr r \<Rightarrow>
          if errorBuffer r \<noteq> [] then
            Inr (Inl (Exit 2 [] [errorBuffer r] False (releaseSalt l) False))
          else Inr (Inr (l\<lparr>iterationCount := result r, the_errno := errno r\<rparr>)))"

definition get_password :: "platform \<Rightarrow> string list \<Rightarrow> locals \<Rightarrow> fault + (outcome + locals)" where
  \<comment> \<open>4. Get the password\<close>
  "get_password pf argv l =
     (let password = argv ! 4 in
      if doItRight l then
        (case getPasswordUTF8Encoding pf password errorBufferSize_main of
           Inl f \<Rightarrow> Inl f
         | Inr r \<Rightarrow>
             if errorBuffer r = [] then
               Inr (Inr (l\<lparr>passwordBytesSize := passwordInUTF8Size r,
                           passwordBytes :=
                             (case passwordInUTF8 r of None \<Rightarrow> [] | Some bytes \<Rightarrow> bytes),
                           releasePassword := (passwordInUTF8 r \<noteq> None)\<rparr>))
             else
               Inr (Inl (Exit 3 [] [errorBuffer r] False (releaseSalt l) False)))
      else
        Inr (Inr (l\<lparr>passwordBytesSize := length password * sizeof_TCHAR pf,
                    passwordBytes := native_bytes pf password\<rparr>)))"

definition initial_locals :: "platform \<Rightarrow> string list \<Rightarrow> locals" where
  \<comment> \<open>the variables as line 542 finds them: the three \<^verbatim>\<open>release\<close> pointers are NULL, what
      is not yet assigned holds anything (set to 0 here, and never read before it is
      assigned), but for \<^verbatim>\<open>saltArraySize\<close>, which the hex conversion prints when its
      allocation fails\<close>
  "initial_locals pf argv =
     \<lparr>doItRight = (length argv \<ge> 6), hashType = 0, salt = 0, saltArray = [],
      saltArraySize = indeterminate pf, releaseSalt = False, iterationCount = 0,
      passwordBytes = [], passwordBytesSize = 0, releasePassword = False, the_errno = 0\<rparr>"

definition tmain_arguments :: "platform \<Rightarrow> string list \<Rightarrow> fault + (outcome + locals)" where
  \<comment> \<open>lines 539 to 638: the four steps in their order, each ending the run on its error\<close>
  "tmain_arguments pf argv =
     (case get_hash_type argv (initial_locals pf argv) of
        Inl f \<Rightarrow> Inl f
      | Inr (Inl out) \<Rightarrow> Inr (Inl out)
      | Inr (Inr l1) \<Rightarrow>
     (case get_salt pf argv l1 of
        Inl f \<Rightarrow> Inl f
      | Inr (Inl out) \<Rightarrow> Inr (Inl out)
      | Inr (Inr l2) \<Rightarrow>
     (case get_iteration_count argv l2 of
        Inl f \<Rightarrow> Inl f
      | Inr (Inl out) \<Rightarrow> Inr (Inl out)
      | Inr (Inr l3) \<Rightarrow> get_password pf argv l3)))"

definition tcscpy_s :: "nat \<Rightarrow> string \<Rightarrow> fault + string" where
  \<comment> \<open>\<^verbatim>\<open>_tcscpy_s(dest, numberOfElements, src)\<close>\<close>
  "tcscpy_s numberOfElements src =
     (if length src < numberOfElements then Inr src else Inl InvalidParameter)"

definition result_line :: "string \<Rightarrow> string \<Rightarrow> int \<Rightarrow> string \<Rightarrow> string option \<Rightarrow> string" where
  \<comment> \<open>the format of line 669; \<^verbatim>\<open>%s\<close> of a NULL pointer prints \<^verbatim>\<open>(null)\<close>\<close>
  "result_line algorithm saltText iterations password pbkdf2AsText =
     ''HashType: '' @ algorithm @ '', Salt: '' @ saltText @ '', IterationCount: '' @
     format_d iterations @ '', Password: '' @ [CHR 0x27] @ password @ [CHR 0x27] @
     '', PBKDF2: '' @ (case pbkdf2AsText of None \<Rightarrow> ''(null)'' | Some t \<Rightarrow> t) @ [CHR 0x0A]"

definition tmain_derive :: "platform \<Rightarrow> string list \<Rightarrow> locals \<Rightarrow> fault + outcome" where
  \<comment> \<open>lines 640 to 693: the derivation and the printing of its result\<close>
  "tmain_derive pf argv l =
     (case calculatePBKDF2 pf (HASH_ALGORITHM ! nat (hashType l)) (saltArray l)
             (saltArraySize l) (iterationCount l) (passwordBytes l) (passwordBytesSize l)
             errorBufferSize_main of
        Inl f \<Rightarrow> Inl f
      | Inr k \<Rightarrow>
         (let releaseDerivedKey = (pDerivedKey k \<noteq> None) in
          if errorBuffer k = [] then
            (case (if doItRight l then
                     bytesToHex (malloc pf SaltText) (sizeof_TCHAR pf) (saltArray l)
                   else if malloc pf SaltText (20 * sizeof_TCHAR pf) then
                     Inr (Some (format_d (salt l)))
                   else Inr None) of
               Inl f \<Rightarrow> Inl f
             | Inr (Some saltText) \<Rightarrow>
                (case bytesToHex (malloc pf KeyText) (sizeof_TCHAR pf)
                        (case pDerivedKey k of None \<Rightarrow> [] | Some key \<Rightarrow> key) of
                   Inl f \<Rightarrow> Inl f
                 | Inr pbkdf2AsText \<Rightarrow>
                (case stprintf_s errorBufferSize_main
                        (result_line (HASH_ALGORITHM ! nat (hashType l)) saltText
                           (iterationCount l) (argv ! 4) pbkdf2AsText) of
                   Inl f \<Rightarrow> Inl f
                 | Inr line \<Rightarrow>
                (case stprintf_s errorBufferSize_main
                        (''Duration: '' @ format_d (duration_ms pf) @ '' ms'' @ [CHR 0x0A]) of
                   Inl f \<Rightarrow> Inl f
                 | Inr duration \<Rightarrow>
                     Inr (Exit 0 [line, duration] [] (releasePassword l) (releaseSalt l)
                            releaseDerivedKey))))
             | Inr None \<Rightarrow>
                (case tcscpy_s ((errorBufferSize_main + 1) * sizeof_TCHAR pf)
                        (''Could not allocate salt text array'' @ [CHR 0x0A]) of
                   Inl f \<Rightarrow> Inl f
                 | Inr msg \<Rightarrow>
                     Inr (Exit 3 [] [msg] (releasePassword l) (releaseSalt l)
                            releaseDerivedKey)))
          else
            Inr (Exit 2 [] [errorBuffer k] (releasePassword l) (releaseSalt l)
                   releaseDerivedKey)))"

definition usage :: "string list" where
  "usage =
     [''Not enough arguments'' @ [CHR 0x0A],
      ''Usage: pbkdf2 <hashType> <salt> <iterationCount> <password> [doItRight]'' @ [CHR 0x0A],
      ''       hashType: 1=SHA-1, 2=SHA-256, 3=SHA384, 5=SHA512'' @ [CHR 0x0A],
      ''       doItRight: If present the salt is interpreted as a byte array and'' @ [CHR 0x0A],
      ''                  the password is converted to UTF-8 before hashing'' @ [CHR 0x0A],
      ''                  Otherwise the salt is interpreted as an integer and'' @ [CHR 0x0A],
      ''                  the password is used in the ANSI or UTF-16 encoding'' @ [CHR 0x0A]]"

fun copy_all :: "nat \<Rightarrow> string list \<Rightarrow> fault + string list" where
  \<comment> \<open>one \<^verbatim>\<open>_tcscpy_s\<close> and one \<^verbatim>\<open>writeBuffer\<close> for each line\<close>
  "copy_all numberOfElements [] = Inr []"
| "copy_all numberOfElements (t # ts) =
     (case tcscpy_s numberOfElements t of
        Inl f \<Rightarrow> Inl f
      | Inr msg \<Rightarrow>
         (case copy_all numberOfElements ts of
            Inl f \<Rightarrow> Inl f
          | Inr msgs \<Rightarrow> Inr (msg # msgs)))"

definition tmain :: "platform \<Rightarrow> string list \<Rightarrow> fault + outcome" where
  \<comment> \<open>\<open>argv\<close> holds \<^verbatim>\<open>argc\<close> strings, the first the program's name\<close>
  "tmain pf argv =
     (if length argv \<ge> 5 then
        (case tmain_arguments pf argv of
           Inl f \<Rightarrow> Inl f
         | Inr (Inl out) \<Rightarrow> Inr out
         | Inr (Inr l) \<Rightarrow> tmain_derive pf argv l)
      else
        (case copy_all ((errorBufferSize_main + 1) * sizeof_TCHAR pf) usage of
           Inl f \<Rightarrow> Inl f
         | Inr msgs \<Rightarrow> Inr (Exit 1 [] msgs False False False)))"

section \<open>Notions used in the statements\<close>

definition is_hex_digit :: "char \<Rightarrow> bool" where
  \<comment> \<open>a character of the class \<^verbatim>\<open>[0-9A-Fa-f]\<close>\<close>
  "is_hex_digit c = (c \<in> set ''0123456789ABCDEFabcdef'')"

definition nibble_writes :: "bool \<Rightarrow> nat \<Rightarrow> nat" where
  \<comment> \<open>how many bytes the decoding loop stores for \<open>n\<close> hex digits, entered with the given
      \<^verbatim>\<open>isLowNibble\<close>\<close>
  "nibble_writes isLowNibble n = (n + (if isLowNibble then 1 else 0)) div 2"

definition hex_pair :: "octet \<Rightarrow> string" where
  \<comment> \<open>the two upper-case digits of a byte, high nibble first\<close>
  "hex_pair x = [HEX_DIGITS ! (unat x div 16), HEX_DIGITS ! (unat x mod 16)]"

fun hex_text :: "octet list \<Rightarrow> string" where
  \<comment> \<open>two digits for each byte, one blank between neighbours, none at the end\<close>
  "hex_text [] = []"
| "hex_text [x] = hex_pair x"
| "hex_text (x # y # ys) = hex_pair x @ CHR '' '' # hex_text (y # ys)"

fun nibble_bytes :: "bool \<Rightarrow> octet \<Rightarrow> string \<Rightarrow> octet list" where
  \<comment> \<open>the bytes the decoding loop stores for a run of hex digits, entered with the given
      \<^verbatim>\<open>isLowNibble\<close> and \<^verbatim>\<open>byteValue\<close>\<close>
  "nibble_bytes isLowNibble byteValue [] = []"
| "nibble_bytes isLowNibble byteValue (c # cs) =
     (if isLowNibble then (byteValue OR getHexCharValue c) # nibble_bytes False byteValue cs
      else nibble_bytes True (push_bit 4 (getHexCharValue c)) cs)"

definition granted :: "nat \<Rightarrow> bool" where
  \<comment> \<open>the allocator that grants every request\<close>
  "granted bytes = True"

fun occurs_in :: "string \<Rightarrow> string \<Rightarrow> bool" where
  \<comment> \<open>the first text occurs somewhere in the second\<close>
  "occurs_in xs [] = (xs = [])"
| "occurs_in xs (y # ys) = (take (length xs) (y # ys) = xs \<or> occurs_in xs ys)"

definition sample_platform :: platform where
  \<comment> \<open>a Unicode build on which every call succeeds, for running the program on concrete
      command lines of ASCII text: the UTF-8 of such a text is its characters, the hash is
      20 bytes long, and the derived key is left as zero bytes\<close>
  "sample_platform =
     \<lparr>UNICODE = True, malloc = (\<lambda>place. granted), MultiByteToWideChar = wide,
      WideCharToMultiByte = map ucast,
      BCryptOpenAlgorithmProvider = (\<lambda>algorithm. 0),
      BCryptGetProperty = (\<lambda>algorithm. (0, 20)),
      BCryptDeriveKeyPBKDF2 = (\<lambda>algorithm password salt iterations size. (0, replicate size 0)),
      duration_ms = 0, indeterminate = 0\<rparr>"

definition STATUS_NOT_FOUND :: int where
  \<comment> \<open>the \<^verbatim>\<open>NTSTATUS\<close> \<^verbatim>\<open>0xC0000225\<close>, as the signed 32-bit value it is\<close>
  "STATUS_NOT_FOUND = - 1073741275"

definition no_provider :: platform where
  \<comment> \<open>the same platform without a provider for any algorithm\<close>
  "no_provider = sample_platform\<lparr>BCryptOpenAlgorithmProvider := (\<lambda>algorithm. STATUS_NOT_FOUND)\<rparr>"

definition no_salt_memory :: platform where
  \<comment> \<open>the same platform with no memory for the salt bytes\<close>
  "no_salt_memory = sample_platform\<lparr>malloc := (\<lambda>place bytes. place \<noteq> SaltBytes)\<rparr>"

section \<open>Properties of the hexadecimal conversion\<close>

subsection \<open>Characters and digits\<close>

lemma of_char_bound: "(of_char c :: nat) < 256"
proof -
  have "(of_char c :: nat) mod 256 = of_char c" by simp
  then show ?thesis by (metis mod_less_divisor zero_less_numeral)
qed

lemma is_hex_digit_iff:
  "is_hex_digit c \<longleftrightarrow>
     (48 \<le> (of_char c :: nat) \<and> (of_char c :: nat) \<le> 57) \<or>
     (65 \<le> (of_char c :: nat) \<and> (of_char c :: nat) \<le> 70) \<or>
     (97 \<le> (of_char c :: nat) \<and> (of_char c :: nat) \<le> 102)"
proof -
  have eq: "(c = d) = ((of_char c :: nat) = of_char d)" for d
    by simp
  show ?thesis
    unfolding is_hex_digit_def
    apply (simp add: eq del: of_char_eq_iff)
    apply arith
    done
qed

lemma word8_of_int_le15: "0 \<le> w \<Longrightarrow> w \<le> 15 \<Longrightarrow> (word_of_int w :: octet) \<le> 15"
  by (simp add: word_le_def uint_word_of_int take_bit_eq_mod)

lemma getHexCharValue_le: "getHexCharValue c \<le> 15 \<longleftrightarrow> is_hex_digit c"
proof -
  define n where "n = int (of_char c)"
  define W where "W = (word_of_int :: int \<Rightarrow> octet)"
  have n: "0 \<le> n" "n < 256"
    using of_char_bound[of c] by (simp_all add: n_def)
  have W: "W w \<le> 15" if "0 \<le> w" "w \<le> 15" for w
    unfolding W_def using that by (rule word8_of_int_le15)
  have hex: "is_hex_digit c \<longleftrightarrow>
      (48 \<le> n \<and> n \<le> 57) \<or> (65 \<le> n \<and> n \<le> 70) \<or> (97 \<le> n \<and> n \<le> 102)"
    unfolding is_hex_digit_iff n_def by auto
  have val: "getHexCharValue c =
     (if n - 48 \<ge> 0 then
        if n - 48 \<le> 9 then W (n - 48)
        else if n - 48 - 7 \<ge> 10 then
             if n - 48 - 7 \<le> 15 then W (n - 48 - 7)
             else if n - 48 - 7 - 32 \<ge> 10 then
                  if n - 48 - 7 - 32 \<le> 15 then W (n - 48 - 7 - 32)
                  else 255
                else 255
           else 255
      else 255)"
    unfolding getHexCharValue_def Let_def n_def W_def by simp
  show ?thesis
    unfolding val hex using n by (auto intro!: W)
qed





lemma unat_octet_div16: "unat (x :: octet) div 16 < 16"
proof -
  have "unat x < 256"
    using unsigned_less[of x, where ?'a = nat] by simp
  then show ?thesis by simp
qed




subsection \<open>The encoder\<close>

lemma put_ok:
  "length (cells b) < capacity b \<Longrightarrow> put v b = Inr (b\<lparr>cells := cells b @ [v]\<rparr>)"
  by (simp add: put_def)









text \<open>
  The text has two characters for each byte and one blank between neighbours, and its
  characters are upper-case hex digits and blanks.
\<close>

lemma length_hex_text: "B \<noteq> [] \<Longrightarrow> length (hex_text B) + 1 = 3 * length B"
  by (induction B rule: hex_text.induct) (simp_all add: hex_pair_def)

lemma hex_pair_upper: "set (hex_pair x) \<subseteq> set ''0123456789ABCDEF''"
proof -
  have "\<forall>n \<in> set [0..<16]. HEX_DIGITS ! n \<in> set ''0123456789ABCDEF''"
    by (simp add: upt_rec HEX_DIGITS_def)
  then have "n < 16 \<Longrightarrow> HEX_DIGITS ! n \<in> set ''0123456789ABCDEF''" for n
    by simp
  from this[OF unat_octet_div16, of x] this[of "unat x mod 16"] show ?thesis
    by (simp add: hex_pair_def)
qed

lemma hex_text_upper:
  "c \<in> set (hex_text B) \<Longrightarrow> c = CHR '' '' \<or> c \<in> set ''0123456789ABCDEF''"
proof -
  define U where "U = set ''0123456789ABCDEF''"
  have pair: "d \<in> set (hex_pair x) \<Longrightarrow> d \<in> U" for d x
    using hex_pair_upper[of x] unfolding U_def by (rule subsetD)
  have "c \<in> set (hex_text B) \<Longrightarrow> c = CHR '' '' \<or> c \<in> U"
    by (induction B rule: hex_text.induct) (auto dest: pair)
  then show "c \<in> set (hex_text B) \<Longrightarrow> c = CHR '' '' \<or> c \<in> set ''0123456789ABCDEF''"
    unfolding U_def .
qed

subsection \<open>The decoder\<close>


lemma loop_valid:
  "\<forall>c\<in>set cs. is_hex_digit c \<Longrightarrow>
   length (cells b) + nibble_writes isLowNibble (length cs) \<le> capacity b \<Longrightarrow>
   hexStringToByteArray_loop ebs txt cs actPos isLowNibble byteValue b =
     Inr (b\<lparr>cells := cells b @ nibble_bytes isLowNibble byteValue cs\<rparr>, [])"
proof (induction cs arbitrary: actPos isLowNibble byteValue b)
  case Nil
  then show ?case by simp
next
  case (Cons c cs)
  have c: "getHexCharValue c \<le> 15"
    using Cons.prems(1) by (simp add: getHexCharValue_le)
  show ?case
  proof (cases isLowNibble)
    case True
    have room: "length (cells b) < capacity b"
      using Cons.prems(2) True by (simp add: nibble_writes_def)
    let ?b = "b\<lparr>cells := cells b @ [byteValue OR getHexCharValue c]\<rparr>"
    have "length (cells ?b) + nibble_writes False (length cs) \<le> capacity ?b"
      using Cons.prems(2) True by (simp add: nibble_writes_def)
    from Cons.IH[OF _ this, of "actPos + 1" byteValue] Cons.prems(1)
    show ?thesis
      using True c room by (simp add: put_ok)
  next
    case False
    have "length (cells b) + nibble_writes True (length cs) \<le> capacity b"
      using Cons.prems(2) False by (simp add: nibble_writes_def)
    from Cons.IH[OF _ this, of "actPos + 1" "push_bit 4 (getHexCharValue c)"] Cons.prems(1)
    show ?thesis
      using False c by simp
  qed
qed

lemma loop_invalid:
  "\<forall>c\<in>set pre. is_hex_digit c \<Longrightarrow> \<not> is_hex_digit c \<Longrightarrow>
   length (cells b) + nibble_writes isLowNibble (length pre) \<le> capacity b \<Longrightarrow>
   hexStringToByteArray_loop ebs txt (pre @ c # rest) actPos isLowNibble byteValue b =
     (case stprintf_s ebs (invalid_hex_message c (actPos + length pre) txt) of
        Inl f \<Rightarrow> Inl f
      | Inr msg \<Rightarrow> Inr (b\<lparr>cells := cells b @ nibble_bytes isLowNibble byteValue pre\<rparr>, msg))"
proof (induction pre arbitrary: actPos isLowNibble byteValue b)
  case Nil
  then show ?case by (simp add: getHexCharValue_le split: sum.splits)
next
  case (Cons d pre)
  have d: "getHexCharValue d \<le> 15"
    using Cons.prems(1) by (simp add: getHexCharValue_le)
  show ?case
  proof (cases isLowNibble)
    case True
    have room: "length (cells b) < capacity b"
      using Cons.prems(3) True by (simp add: nibble_writes_def)
    let ?b = "b\<lparr>cells := cells b @ [byteValue OR getHexCharValue d]\<rparr>"
    have "length (cells ?b) + nibble_writes False (length pre) \<le> capacity ?b"
      using Cons.prems(3) True by (simp add: nibble_writes_def)
    from Cons.IH[OF _ Cons.prems(2) this, of "actPos + 1" byteValue] Cons.prems(1)
    show ?thesis
      using True d room by (simp add: put_ok split: sum.splits)
  next
    case False
    have "length (cells b) + nibble_writes True (length pre) \<le> capacity b"
      using Cons.prems(3) False by (simp add: nibble_writes_def)
    from Cons.IH[OF _ Cons.prems(2) this, of "actPos + 1" "push_bit 4 (getHexCharValue d)"]
      Cons.prems(1)
    show ?thesis
      using False d by (simp split: sum.splits)
  qed
qed





lemma allocationSize_eq:
  "(n AND 1 \<noteq> 0) = odd (n :: nat)"
  "(if odd n then drop_bit 1 n + 1 else drop_bit 1 n) = (n + 1) div 2"
  by (auto simp: drop_bit_eq_div and_one_eq mod_2_eq_odd)

lemma nibble_writes_total: "nibble_writes (odd n) n = (n + 1) div 2"
  by (auto simp: nibble_writes_def)

lemma nibble_writes_mono: "m \<le> n \<Longrightarrow> nibble_writes l m \<le> nibble_writes l n"
  by (simp add: nibble_writes_def div_le_mono)

lemma hexStringToByteArray_granted:
  "m ((length s + 1) div 2) \<Longrightarrow>
   hexStringToByteArray m s n0 ebs =
     (case hexStringToByteArray_loop ebs s s 1 (odd (length s)) 0
             \<lparr>capacity = (length s + 1) div 2, cells = []\<rparr> of
        Inl f \<Rightarrow> Inl f
      | Inr (b, msg) \<Rightarrow>
          Inr \<lparr>errorBuffer = msg, returned = Some b, byteArraySize = (length s + 1) div 2\<rparr>)"
  unfolding hexStringToByteArray_def Let_def allocationSize_eq
  by (simp add: alloc_def)

lemma hexStringToByteArray_valid:
  assumes "\<forall>c\<in>set s. is_hex_digit c" and "m ((length s + 1) div 2)"
  shows "hexStringToByteArray m s n0 ebs =
            Inr \<lparr>errorBuffer = [],
                 returned = Some \<lparr>capacity = (length s + 1) div 2,
                                  cells = nibble_bytes (odd (length s)) 0 s\<rparr>,
                 byteArraySize = (length s + 1) div 2\<rparr>"
proof -
  let ?b = "\<lparr>capacity = (length s + 1) div 2, cells = []\<rparr> :: octet buffer"
  have "length (cells ?b) + nibble_writes (odd (length s)) (length s) \<le> capacity ?b"
    by (simp add: nibble_writes_total)
  from loop_valid[OF assms(1) this, of ebs s 1 0]
  show ?thesis
    unfolding hexStringToByteArray_granted[of m s, OF assms(2)] by simp
qed

lemma hexStringToByteArray_invalid:
  assumes "s = pre @ c # rest" and "\<forall>x\<in>set pre. is_hex_digit x" and "\<not> is_hex_digit c"
    and "m ((length s + 1) div 2)"
  shows "hexStringToByteArray m s n0 ebs =
       (case stprintf_s ebs (invalid_hex_message c (length pre + 1) s) of
          Inl f \<Rightarrow> Inl f
        | Inr msg \<Rightarrow>
            Inr \<lparr>errorBuffer = msg,
                 returned = Some \<lparr>capacity = (length s + 1) div 2,
                                  cells = nibble_bytes (odd (length s)) 0 pre\<rparr>,
                 byteArraySize = (length s + 1) div 2\<rparr>)"
proof -
  let ?b = "\<lparr>capacity = (length s + 1) div 2, cells = []\<rparr> :: octet buffer"
  have "length pre \<le> length s" using assms(1) by simp
  then have "nibble_writes (odd (length s)) (length pre) \<le> nibble_writes (odd (length s)) (length s)"
    by (rule nibble_writes_mono)
  then have "length (cells ?b) + nibble_writes (odd (length s)) (length pre) \<le> capacity ?b"
    by (simp add: nibble_writes_total)
  from loop_invalid[OF assms(2,3) this, of ebs s rest 1 0]
  have run: "hexStringToByteArray_loop ebs s s 1 (odd (length s)) 0 ?b =
       (case stprintf_s ebs (invalid_hex_message c (1 + length pre) s) of
          Inl f \<Rightarrow> Inl f
        | Inr msg \<Rightarrow> Inr (?b\<lparr>cells := cells ?b @ nibble_bytes (odd (length s)) 0 pre\<rparr>, msg))"
    using assms(1) by simp
  show ?thesis
    unfolding hexStringToByteArray_granted[of m s, OF assms(4)] run
    by (simp split: sum.splits)
qed

lemma first_invalid:
  assumes "\<not> (\<forall>c\<in>set s. P c)"
  shows "s = takeWhile P s @ (s ! length (takeWhile P s)) # drop (length (takeWhile P s) + 1) s"
    and "\<not> P (s ! length (takeWhile P s))" and "length (takeWhile P s) < length s"
proof -
  let ?p = "length (takeWhile P s)"
  have tk: "takeWhile P s = take ?p s"
    by (rule takeWhile_eq_take)
  have "takeWhile P s \<noteq> s"
    using assms by (simp add: takeWhile_eq_all_conv)
  with tk have "take ?p s \<noteq> s" by simp
  then show p: "?p < length s"
    by (metis not_le_imp_less take_all)
  show "\<not> P (s ! ?p)"
    using p by (rule nth_length_takeWhile)
  show "s = takeWhile P s @ (s ! ?p) # drop (?p + 1) s"
    using p tk by (metis Cons_nth_drop_Suc Suc_eq_plus1 append_take_drop_id)
qed


section \<open>Claims on the hexadecimal conversion\<close>









section \<open>Claims on the integer arguments\<close>

lemmas parser_defs = getIntegerArg_def ttoi_def stprintf_s_def quoted_def format_d_def
  decimal.simps isspace_char_def isdigit_char_def INT_MAX_def INT_MIN_def ERANGE_def
  errorBufferSize_main_def MIN_HASH_TYPE_def MAX_HASH_TYPE_def MIN_SALT_def MAX_SALT_def
  MIN_ITERATION_COUNT_def MAX_ITERATION_COUNT_def

lemma ttoi_no_number:
  assumes "\<not> isspace_char c" and "\<not> isdigit_char c" and "c \<noteq> CHR ''-''" and "c \<noteq> CHR ''+''"
  shows "ttoi (c # cs) e = (0, e)"
  using assms by (simp add: ttoi_def INT_MAX_def INT_MIN_def)

text \<open>
  Claim C3 says that a text that is not numeric, such as \<^verbatim>\<open>abc\<close>, is rejected as not an
  integer. The code does not do so. \<^verbatim>\<open>_ttoi\<close> returns 0 for a text that starts with no
  number and does not touch \<^verbatim>\<open>errno\<close>, which the function tests: a text whose first
  character is no blank, sign or digit is handled exactly as the text \<^verbatim>\<open>0\<close>, is never
  answered with the not-an-integer message, and is accepted as 0 wherever the range holds 0.
  For \<^verbatim>\<open>abc\<close> the salt is accepted as 0, and the hash type and the iteration count are
  rejected as smaller than the minimum.
\<close>

theorem getIntegerArg_non_numeric:
  assumes "\<not> isspace_char c" and "\<not> isdigit_char c" and "c \<noteq> CHR ''-''" and "c \<noteq> CHR ''+''"
  shows "getIntegerArg pArgName (c # cs) minValue maxValue 0 errorBufferSize =
           getIntegerArg pArgName ''0'' minValue maxValue 0 errorBufferSize \<and>
         (\<forall>r. getIntegerArg pArgName (c # cs) minValue maxValue 0 errorBufferSize = Inr r \<longrightarrow>
            errorBuffer r \<noteq> quoted pArgName @ '' is not an integer'' @ [CHR 0x0A]) \<and>
         (minValue \<le> 0 \<and> 0 \<le> maxValue \<longrightarrow>
            getIntegerArg pArgName (c # cs) minValue maxValue 0 errorBufferSize =
              Inr \<lparr>errorBuffer = [], result = 0, errno = 0\<rparr>)"
proof -
  have zero: "ttoi ''0'' 0 = (0, 0)"
    by (simp add: ttoi_def isspace_char_def isdigit_char_def INT_MAX_def INT_MIN_def)
  have t: "ttoi (c # cs) 0 = (0, 0)"
    using assms by (rule ttoi_no_number)
  have same: "getIntegerArg pArgName (c # cs) minValue maxValue 0 errorBufferSize =
           getIntegerArg pArgName ''0'' minValue maxValue 0 errorBufferSize"
    by (simp add: getIntegerArg_def t zero)
  have never: "errorBuffer r \<noteq> quoted pArgName @ '' is not an integer'' @ [CHR 0x0A]"
    if "getIntegerArg pArgName (c # cs) minValue maxValue 0 errorBufferSize = Inr r" for r
    using that
    by (auto simp: getIntegerArg_def t stprintf_s_def quoted_def split: if_splits)
  have accepted: "getIntegerArg pArgName (c # cs) minValue maxValue 0 errorBufferSize =
              Inr \<lparr>errorBuffer = [], result = 0, errno = 0\<rparr>"
    if "minValue \<le> 0 \<and> 0 \<le> maxValue"
    using that by (simp add: getIntegerArg_def t)
  from same never accepted show ?thesis by blast
qed

theorem getIntegerArg_non_numeric_witness:
  "getIntegerArg ''salt'' ''abc'' MIN_SALT MAX_SALT 0 errorBufferSize_main =
     Inr \<lparr>errorBuffer = [], result = 0, errno = 0\<rparr> \<and>
   getIntegerArg ''hashType'' ''abc'' MIN_HASH_TYPE MAX_HASH_TYPE 0 errorBufferSize_main =
     Inr \<lparr>errorBuffer = quoted ''hashType'' @ '' is smaller than minimum value of 1'' @ [CHR 0x0A],
          result = 0, errno = 0\<rparr> \<and>
   getIntegerArg ''iterationCount'' ''abc'' MIN_ITERATION_COUNT MAX_ITERATION_COUNT 0
       errorBufferSize_main =
     Inr \<lparr>errorBuffer =
            quoted ''iterationCount'' @ '' is smaller than minimum value of 1'' @ [CHR 0x0A],
          result = 0, errno = 0\<rparr>"
proof -
  have a: "\<not> isspace_char CHR ''a''" "\<not> isdigit_char CHR ''a''" "CHR ''a'' \<noteq> CHR ''-''"
    "CHR ''a'' \<noteq> CHR ''+''"
    by (simp_all add: isspace_char_def isdigit_char_def)
  note n = getIntegerArg_non_numeric[OF a, of _ "''bc''"]
  have "getIntegerArg ''salt'' ''abc'' MIN_SALT MAX_SALT 0 errorBufferSize_main =
     Inr \<lparr>errorBuffer = [], result = 0, errno = 0\<rparr>"
    using n[of "''salt''" MIN_SALT MAX_SALT errorBufferSize_main, THEN conjunct2, THEN conjunct2]
    by (simp add: MIN_SALT_def MAX_SALT_def INT_MAX_def)
  moreover have "getIntegerArg ''hashType'' ''abc'' MIN_HASH_TYPE MAX_HASH_TYPE 0 errorBufferSize_main =
     Inr \<lparr>errorBuffer = quoted ''hashType'' @ '' is smaller than minimum value of 1'' @ [CHR 0x0A],
          result = 0, errno = 0\<rparr>"
    using n[of "''hashType''" MIN_HASH_TYPE MAX_HASH_TYPE errorBufferSize_main, THEN conjunct1]
    by (simp add: parser_defs)
  moreover have "getIntegerArg ''iterationCount'' ''abc'' MIN_ITERATION_COUNT MAX_ITERATION_COUNT 0
       errorBufferSize_main =
     Inr \<lparr>errorBuffer =
            quoted ''iterationCount'' @ '' is smaller than minimum value of 1'' @ [CHR 0x0A],
          result = 0, errno = 0\<rparr>"
    using n[of "''iterationCount''" MIN_ITERATION_COUNT MAX_ITERATION_COUNT errorBufferSize_main,
        THEN conjunct1]
    by (simp add: parser_defs)
  ultimately show ?thesis by blast
qed

text \<open>
  Claim C8, as stated, has each bound-failure message name the offending value. The
  formats of lines 175 and 182 print the argument's name and the bound only: the message
  for \<^verbatim>\<open>6000000\<close> does not contain \<^verbatim>\<open>6000000\<close>.
\<close>

theorem iteration_count_message_counterexample:
  "getIntegerArg ''iterationCount'' ''6000000'' MIN_ITERATION_COUNT MAX_ITERATION_COUNT 0
       errorBufferSize_main =
     Inr \<lparr>errorBuffer =
            quoted ''iterationCount'' @ '' is larger than maximum value of 5000000'' @ [CHR 0x0A],
          result = 0, errno = 0\<rparr> \<and>
   \<not> occurs_in ''6000000''
       (quoted ''iterationCount'' @ '' is larger than maximum value of 5000000'' @ [CHR 0x0A])"
  by (simp add: parser_defs)

text \<open>
  Claim C8, amended. Applied to the iteration count, with the range from 1 to 5000000, the
  parser rejects \<^verbatim>\<open>0\<close> as smaller than the minimum and \<^verbatim>\<open>6000000\<close> as larger than the
  maximum, and accepts \<^verbatim>\<open>1\<close> and \<^verbatim>\<open>5000000\<close>, returning them unchanged; each
  bound-failure message names the argument and the violated bound.
\<close>

theorem iteration_count_bounds:
  "getIntegerArg ''iterationCount'' ''0'' MIN_ITERATION_COUNT MAX_ITERATION_COUNT 0
       errorBufferSize_main =
     Inr \<lparr>errorBuffer =
            quoted ''iterationCount'' @ '' is smaller than minimum value of 1'' @ [CHR 0x0A],
          result = 0, errno = 0\<rparr> \<and>
   getIntegerArg ''iterationCount'' ''6000000'' MIN_ITERATION_COUNT MAX_ITERATION_COUNT 0
       errorBufferSize_main =
     Inr \<lparr>errorBuffer =
            quoted ''iterationCount'' @ '' is larger than maximum value of 5000000'' @ [CHR 0x0A],
          result = 0, errno = 0\<rparr> \<and>
   getIntegerArg ''iterationCount'' ''1'' MIN_ITERATION_COUNT MAX_ITERATION_COUNT 0
       errorBufferSize_main = Inr \<lparr>errorBuffer = [], result = 1, errno = 0\<rparr> \<and>
   getIntegerArg ''iterationCount'' ''5000000'' MIN_ITERATION_COUNT MAX_ITERATION_COUNT 0
       errorBufferSize_main = Inr \<lparr>errorBuffer = [], result = 5000000, errno = 0\<rparr>"
  by (simp add: parser_defs)

section \<open>Claims on the main program\<close>

subsection \<open>The steps that read the arguments\<close>

lemma stprintf_s_Inr: "stprintf_s n t = Inr msg \<Longrightarrow> msg = t"
  by (simp add: stprintf_s_def split: if_splits)

lemma getIntegerArg_accepted:
  assumes "getIntegerArg pArgName pArg minValue maxValue e ebs = Inr r" and "errorBuffer r = []"
  shows "errno r = 0 \<and> result r = fst (ttoi pArg e) \<and> minValue \<le> result r \<and> result r \<le> maxValue"
proof -
  obtain v e1 where t: "ttoi pArg e = (v, e1)"
    by (cases "ttoi pArg e")
  have q: "quoted pArgName @ x \<noteq> []" for x
    by (simp add: quoted_def)
  from assms show ?thesis
    unfolding getIntegerArg_def t
    by (auto simp: q split: if_splits sum.splits dest!: stprintf_s_Inr)
qed

lemma get_hash_type_accepted:
  assumes "get_hash_type argv l = Inr (Inr l')"
  shows "\<exists>h. l' = l\<lparr>hashType := h, the_errno := 0\<rparr>"
  using assms getIntegerArg_accepted
  unfolding get_hash_type_def
  by (fastforce split: sum.splits if_splits)

lemma get_iteration_count_accepted:
  assumes "get_iteration_count argv l = Inr (Inr l')"
  shows "\<exists>n. l' = l\<lparr>iterationCount := n, the_errno := 0\<rparr>"
  using assms getIntegerArg_accepted
  unfolding get_iteration_count_def
  by (fastforce split: sum.splits if_splits)

lemma hexStringToByteArray_rejected:
  assumes "\<not> (\<forall>c\<in>set s. is_hex_digit c)" and "m ((length s + 1) div 2)"
  shows "hexStringToByteArray m s n0 ebs =
       (case stprintf_s ebs
               (invalid_hex_message (s ! length (takeWhile is_hex_digit s))
                  (length (takeWhile is_hex_digit s) + 1) s) of
          Inl f \<Rightarrow> Inl f
        | Inr msg \<Rightarrow>
            Inr \<lparr>errorBuffer = msg,
                 returned = Some \<lparr>capacity = (length s + 1) div 2,
                                  cells = nibble_bytes (odd (length s)) 0
                                            (takeWhile is_hex_digit s)\<rparr>,
                 byteArraySize = (length s + 1) div 2\<rparr>)"
proof -
  note fi = first_invalid[OF assms(1)]
  have pre: "\<forall>x\<in>set (takeWhile is_hex_digit s). is_hex_digit x"
    by (auto dest: set_takeWhileD)
  show ?thesis
    by (rule hexStringToByteArray_invalid[of s "takeWhile is_hex_digit s" _ _ m,
          OF fi(1) pre fi(2) assms(2)])
qed

lemma hexStringToByteArray_accepted:
  assumes "hexStringToByteArray m s n0 ebs = Inr h" and "errorBuffer h = []"
  shows "(\<forall>c\<in>set s. is_hex_digit c) \<and>
         h = \<lparr>errorBuffer = [],
              returned = Some \<lparr>capacity = (length s + 1) div 2,
                               cells = nibble_bytes (odd (length s)) 0 s\<rparr>,
              byteArraySize = (length s + 1) div 2\<rparr>"
proof -
  have granted: "m ((length s + 1) div 2)"
  proof (rule ccontr)
    assume "\<not> m ((length s + 1) div 2)"
    with assms show False
      unfolding hexStringToByteArray_def Let_def allocationSize_eq
      by (auto simp: alloc_def split: sum.splits dest!: stprintf_s_Inr)
  qed
  have valid: "\<forall>c\<in>set s. is_hex_digit c"
  proof (rule ccontr)
    assume bad: "\<not> (\<forall>c\<in>set s. is_hex_digit c)"
    from hexStringToByteArray_rejected[of s m n0 ebs, OF bad granted] assms
    show False
      by (auto simp: invalid_hex_message_def split: sum.splits dest!: stprintf_s_Inr)
  qed
  from hexStringToByteArray_valid[of s m n0 ebs, OF valid granted] assms valid
  show ?thesis by simp
qed

lemma get_salt_accepted:
  assumes "get_salt pf argv l = Inr (Inr l')"
  shows "(doItRight l \<longrightarrow>
            (\<forall>c\<in>set (argv ! 2). is_hex_digit c) \<and>
            hexStringToByteArray (malloc pf SaltBytes) (argv ! 2) (indeterminate pf)
                errorBufferSize_main =
              Inr \<lparr>errorBuffer = [],
                   returned = Some \<lparr>capacity = (length (argv ! 2) + 1) div 2,
                                    cells = nibble_bytes (odd (length (argv ! 2))) 0 (argv ! 2)\<rparr>,
                   byteArraySize = (length (argv ! 2) + 1) div 2\<rparr> \<and>
            l' = l\<lparr>saltArray := nibble_bytes (odd (length (argv ! 2))) 0 (argv ! 2),
                   saltArraySize := (length (argv ! 2) + 1) div 2, releaseSalt := True\<rparr>) \<and>
         (\<not> doItRight l \<longrightarrow>
            (\<exists>r. getIntegerArg ''salt'' (argv ! 2) MIN_SALT MAX_SALT (the_errno l)
                    errorBufferSize_main = Inr r \<and> errorBuffer r = [] \<and>
                 l' = l\<lparr>salt := result r, saltArraySize := 4, saltArray := int_bytes (result r),
                        the_errno := 0\<rparr>))"
proof (cases "doItRight l")
  case True
  from assms True obtain h where
    h: "hexStringToByteArray (malloc pf SaltBytes) (argv ! 2) (indeterminate pf)
          errorBufferSize_main = Inr h" "errorBuffer h = []"
    and l': "l' = l\<lparr>saltArray := (case returned h of None \<Rightarrow> [] | Some b \<Rightarrow> cells b),
                     saltArraySize := byteArraySize h, releaseSalt := (returned h \<noteq> None)\<rparr>"
    unfolding get_salt_def safeHexStringToByteArray_def Let_def
    by (auto split: sum.splits if_splits)
  from hexStringToByteArray_accepted[OF h] h(1) l' True show ?thesis
    by simp
next
  case False
  from assms False obtain r where
    r: "getIntegerArg ''salt'' (argv ! 2) MIN_SALT MAX_SALT (the_errno l) errorBufferSize_main = Inr r"
       "errorBuffer r = []"
    and l': "l' = l\<lparr>salt := result r, saltArraySize := 4, saltArray := int_bytes (result r),
                     the_errno := errno r\<rparr>"
    unfolding get_salt_def
    by (auto split: sum.splits if_splits)
  from getIntegerArg_accepted[OF r] r l' False show ?thesis
    by auto
qed

lemma get_password_accepted:
  assumes "get_password pf argv l = Inr (Inr l')"
  shows "(doItRight l \<longrightarrow>
            l' = l\<lparr>passwordBytesSize :=
                     length (WideCharToMultiByte pf
                       (if UNICODE pf then wide (argv ! 4) else MultiByteToWideChar pf (argv ! 4))),
                   passwordBytes :=
                     WideCharToMultiByte pf
                       (if UNICODE pf then wide (argv ! 4) else MultiByteToWideChar pf (argv ! 4)),
                   releasePassword := True\<rparr>) \<and>
         (\<not> doItRight l \<longrightarrow>
            l' = l\<lparr>passwordBytesSize := length (argv ! 4) * sizeof_TCHAR pf,
                   passwordBytes := native_bytes pf (argv ! 4)\<rparr>)"
proof (cases "doItRight l")
  case True
  have u: "utf8_of_wide pf w e errorBufferSize_main = Inr r \<Longrightarrow> errorBuffer r = [] \<Longrightarrow>
      passwordInUTF8 r = Some (WideCharToMultiByte pf w) \<and>
      passwordInUTF8Size r = length (WideCharToMultiByte pf w)" for w e r
    unfolding utf8_of_wide_def Let_def
    by (auto split: if_splits sum.splits dest!: stprintf_s_Inr)
  from assms True obtain r where
    r: "getPasswordUTF8Encoding pf (argv ! 4) errorBufferSize_main = Inr r" "errorBuffer r = []"
    and l': "l' = l\<lparr>passwordBytesSize := passwordInUTF8Size r,
                     passwordBytes := (case passwordInUTF8 r of None \<Rightarrow> [] | Some bytes \<Rightarrow> bytes),
                     releasePassword := (passwordInUTF8 r \<noteq> None)\<rparr>"
    unfolding get_password_def Let_def
    by (auto split: sum.splits if_splits)
  have "passwordInUTF8 r = Some (WideCharToMultiByte pf
            (if UNICODE pf then wide (argv ! 4) else MultiByteToWideChar pf (argv ! 4))) \<and>
        passwordInUTF8Size r = length (WideCharToMultiByte pf
            (if UNICODE pf then wide (argv ! 4) else MultiByteToWideChar pf (argv ! 4)))"
  proof (cases "UNICODE pf")
    case True
    with r u[of "wide (argv ! 4)" "[]" r] show ?thesis
      by (simp add: getPasswordUTF8Encoding_def)
  next
    case False
    with r obtain r16 where r16: "getPasswordUTF16Encoding pf (argv ! 4) errorBufferSize_main = Inr r16"
      by (auto simp: getPasswordUTF8Encoding_def split: sum.splits)
    show ?thesis
    proof (cases "passwordInUTF16 r16")
      case None
      with r16 have "errorBuffer r16 \<noteq> []"
        unfolding getPasswordUTF16Encoding_def Let_def
        by (auto split: if_splits sum.splits dest!: stprintf_s_Inr)
      with r r16 None False show ?thesis
        by (auto simp: getPasswordUTF8Encoding_def)
    next
      case (Some w)
      with r16 have w: "w = MultiByteToWideChar pf (argv ! 4)"
        unfolding getPasswordUTF16Encoding_def Let_def
        by (auto split: if_splits sum.splits)
      from r r16 Some False have "utf8_of_wide pf w (errorBuffer r16) errorBufferSize_main = Inr r"
        by (simp add: getPasswordUTF8Encoding_def)
      from u[OF this r(2)] w False show ?thesis by simp
    qed
  qed
  with l' True show ?thesis by simp
next
  case False
  with assms show ?thesis
    unfolding get_password_def Let_def by auto
qed

lemma int_bytes_little_endian:
  "int_bytes i =
     [word_of_int i, word_of_int (i div 2 ^ 8), word_of_int (i div 2 ^ 16),
      word_of_int (i div 2 ^ 24)]"
proof -
  have b: "(ucast (drop_bit k (word_of_int i :: 32 word)) :: octet) = word_of_int (i div 2 ^ k)"
    if "k + 8 \<le> 32" for k
  proof (rule bit_word_eqI)
    fix n assume "n < LENGTH(8)"
    then show "bit (ucast (drop_bit k (word_of_int i :: 32 word)) :: octet) n =
        bit (word_of_int (i div 2 ^ k) :: octet) n"
      using that
      by (simp add: bit_ucast_iff bit_drop_bit_eq bit_word_of_int_iff flip: drop_bit_eq_div)
  qed
  show ?thesis
    unfolding int_bytes_def Let_def
    using b[of 0] b[of 8] b[of 16] b[of 24] by simp
qed

text \<open>
  Claim C6. When the arguments are accepted, the locals that are passed on to the
  derivation are these. In Correct mode (a fifth argument is present) the salt argument
  consists of hex digits, the salt bytes are what \<^verbatim>\<open>hexStringToByteArray\<close> decodes it to,
  and the password bytes are the UTF-8 text the platform's conversion gives for the
  password (by way of the ANSI code page in an ANSI build). In Naive mode the salt bytes
  are the four bytes of the salt argument parsed as an integer from 0 to \<^verbatim>\<open>INT_MAX\<close>, low
  byte first, and the password bytes are the bytes its characters occupy in memory. These
  locals are what \<^verbatim>\<open>calculatePBKDF2\<close> is called with.
\<close>

theorem mode_seam:
  assumes "tmain_arguments pf argv = Inr (Inr l)"
  shows "doItRight l = (6 \<le> length argv) \<and>
     (6 \<le> length argv \<longrightarrow>
        (\<forall>c\<in>set (argv ! 2). is_hex_digit c) \<and>
        hexStringToByteArray (malloc pf SaltBytes) (argv ! 2) (indeterminate pf)
            errorBufferSize_main =
          Inr \<lparr>errorBuffer = [],
               returned = Some \<lparr>capacity = saltArraySize l, cells = saltArray l\<rparr>,
               byteArraySize = saltArraySize l\<rparr> \<and>
        passwordBytes l =
          WideCharToMultiByte pf
            (if UNICODE pf then wide (argv ! 4) else MultiByteToWideChar pf (argv ! 4)) \<and>
        passwordBytesSize l = length (passwordBytes l)) \<and>
     (\<not> 6 \<le> length argv \<longrightarrow>
        (\<exists>r. getIntegerArg ''salt'' (argv ! 2) MIN_SALT MAX_SALT 0 errorBufferSize_main = Inr r \<and>
             errorBuffer r = [] \<and> salt l = result r) \<and>
        saltArray l =
          [word_of_int (salt l), word_of_int (salt l div 2 ^ 8), word_of_int (salt l div 2 ^ 16),
           word_of_int (salt l div 2 ^ 24)] \<and>
        saltArraySize l = 4 \<and>
        passwordBytes l = native_bytes pf (argv ! 4) \<and>
        passwordBytesSize l = length (argv ! 4) * sizeof_TCHAR pf) \<and>
     (5 \<le> length argv \<longrightarrow> tmain pf argv = tmain_derive pf argv l)"
proof -
  from assms obtain l1 l2 l3 where
    s1: "get_hash_type argv (initial_locals pf argv) = Inr (Inr l1)" and
    s2: "get_salt pf argv l1 = Inr (Inr l2)" and
    s3: "get_iteration_count argv l2 = Inr (Inr l3)" and
    s4: "get_password pf argv l3 = Inr (Inr l)"
    unfolding tmain_arguments_def by (auto split: sum.splits)
  from get_hash_type_accepted[OF s1] obtain h where
    l1: "l1 = (initial_locals pf argv)\<lparr>hashType := h, the_errno := 0\<rparr>" by blast
  have d1: "doItRight l1 = (6 \<le> length argv)" "the_errno l1 = 0"
    by (simp_all add: l1 initial_locals_def)
  note a2 = get_salt_accepted[OF s2, unfolded d1]
  from get_iteration_count_accepted[OF s3] obtain n where
    l3: "l3 = l2\<lparr>iterationCount := n, the_errno := 0\<rparr>" by blast
  have d2: "doItRight l2 = (6 \<le> length argv)"
    using a2 d1 by (cases "6 \<le> length argv") auto
  have d3: "doItRight l3 = (6 \<le> length argv)"
    by (simp add: l3 d2)
  note a4 = get_password_accepted[OF s4, unfolded d3]
  show ?thesis
  proof (cases "6 \<le> length argv")
    case True
    with a2 a4 l3 show ?thesis
      using assms by (auto simp: tmain_def d1)
  next
    case False
    with a2 a4 l3 show ?thesis
      using assms by (auto simp: tmain_def d1 int_bytes_little_endian)
  qed
qed

lemmas main_defs = tmain_def tmain_arguments_def initial_locals_def get_hash_type_def get_salt_def
  get_iteration_count_def get_password_def Exit_def tmain_derive_def calculatePBKDF2_def
  NT_SUCCESS_def ULONG_def ULONGLONG_def HASH_ALGORITHM_def BCRYPT_SHA1_ALGORITHM_def
  BCRYPT_SHA256_ALGORITHM_def BCRYPT_SHA384_ALGORITHM_def BCRYPT_SHA512_ALGORITHM_def
  native_bytes_def int_bytes_def sizeof_TCHAR_def result_line_def sample_platform_def
  no_provider_def STATUS_NOT_FOUND_def granted_def apiErrorMessage_def format_x_def
  hexadecimal.simps tcscpy_s_def usage_def safeHexStringToByteArray_def
  getPasswordUTF8Encoding_def utf8_of_wide_def wide_def

lemmas hex_defs = hexStringToByteArray_def bytesToHex_def alloc_def put_def put_back_def
  c_string_def getHexCharValue_def invalid_hex_message_def HEX_DIGITS_def NUL_def Let_def
  drop_bit_eq_div

theorem mode_seam_witness:
  "(\<exists>l. tmain_arguments sample_platform [''pbkdf2'', ''2'', ''0010'', ''1'', ''test'', ''x''] =
         Inr (Inr l) \<and>
       saltArray l = [0x00, 0x10] \<and> passwordBytes l = [0x74, 0x65, 0x73, 0x74]) \<and>
   (\<exists>l. tmain_arguments sample_platform [''pbkdf2'', ''2'', ''258'', ''1'', ''test''] =
         Inr (Inr l) \<and>
       saltArray l = [0x02, 0x01, 0x00, 0x00] \<and>
       passwordBytes l = [0x74, 0x00, 0x65, 0x00, 0x73, 0x00, 0x74, 0x00])"
proof
  let ?argv = "[''pbkdf2'', ''2'', ''0010'', ''1'', ''test'', ''x'']"
  have "\<exists>l. tmain_arguments sample_platform ?argv = Inr (Inr l)"
    by (simp add: parser_defs main_defs hex_defs)
  then obtain l where l: "tmain_arguments sample_platform ?argv = Inr (Inr l)" ..
  have hex: "hexStringToByteArray (malloc sample_platform SaltBytes) (?argv ! 2)
        (indeterminate sample_platform) errorBufferSize_main =
      Inr \<lparr>errorBuffer = [], returned = Some \<lparr>capacity = 2, cells = [0x00, 0x10]\<rparr>,
           byteArraySize = 2\<rparr>"
    by (simp add: parser_defs main_defs hex_defs)
  from mode_seam[OF l] hex have "saltArray l = [0x00, 0x10]"
    and "passwordBytes l = [0x74, 0x65, 0x73, 0x74]"
    by (simp_all add: sample_platform_def wide_def)
  with l show "\<exists>l. tmain_arguments sample_platform ?argv = Inr (Inr l) \<and>
       saltArray l = [0x00, 0x10] \<and> passwordBytes l = [0x74, 0x65, 0x73, 0x74]"
    by blast
next
  let ?argv = "[''pbkdf2'', ''2'', ''258'', ''1'', ''test'']"
  have "\<exists>l. tmain_arguments sample_platform ?argv = Inr (Inr l)"
    by (simp add: parser_defs main_defs hex_defs)
  then obtain l where l: "tmain_arguments sample_platform ?argv = Inr (Inr l)" ..
  have salt: "getIntegerArg ''salt'' (?argv ! 2) MIN_SALT MAX_SALT 0 errorBufferSize_main =
      Inr \<lparr>errorBuffer = [], result = 258, errno = 0\<rparr>"
    by (simp add: parser_defs)
  from mode_seam[OF l] salt have "salt l = 258"
    by auto
  with mode_seam[OF l] have "saltArray l = [0x02, 0x01, 0x00, 0x00]"
    and "passwordBytes l = [0x74, 0x00, 0x65, 0x00, 0x73, 0x00, 0x74, 0x00]"
    by (simp_all add: sample_platform_def native_bytes_def)
  with l show "\<exists>l. tmain_arguments sample_platform ?argv = Inr (Inr l) \<and>
       saltArray l = [0x02, 0x01, 0x00, 0x00] \<and>
       passwordBytes l = [0x74, 0x00, 0x65, 0x00, 0x73, 0x00, 0x74, 0x00]"
    by blast
qed

text \<open>
  The derivation step reports a failure, by a message in the error buffer, exactly when
  one of its four calls fails.
\<close>

lemma calculatePBKDF2_reports:
  assumes "calculatePBKDF2 pf alg pSalt saltSize iterations password passwordSize ebs = Inr k"
  shows "errorBuffer k = [] \<longleftrightarrow>
     NT_SUCCESS (BCryptOpenAlgorithmProvider pf alg) \<and>
     NT_SUCCESS (fst (BCryptGetProperty pf alg)) \<and>
     malloc pf DerivedKey (snd (BCryptGetProperty pf alg)) \<and>
     NT_SUCCESS (fst (BCryptDeriveKeyPBKDF2 pf alg (take (ULONG passwordSize) password)
        (take (ULONG saltSize) pSalt) (ULONGLONG iterations)
        (ULONG (snd (BCryptGetProperty pf alg)))))"
proof -
  obtain s2 n where g: "BCryptGetProperty pf alg = (s2, n)"
    by (cases "BCryptGetProperty pf alg")
  from assms show ?thesis
    unfolding calculatePBKDF2_def Let_def g
    by (auto simp: apiErrorMessage_def split: if_splits sum.splits prod.splits
        dest!: stprintf_s_Inr)
qed

text \<open>
  Claim C1 says that every failure reported by the derivation step ends the process with
  exit code 3. The code returns 2 (line 691): whenever the arguments are accepted and
  \<^verbatim>\<open>calculatePBKDF2\<close> leaves a message in the error buffer, whichever of its four
  failures it reports, \<^verbatim>\<open>_tmain\<close> writes the message and returns 2. The witness is a run
  on a platform without a provider for the algorithm.
\<close>

theorem tmain_derivation_failure:
  assumes "5 \<le> length argv" and "tmain_arguments pf argv = Inr (Inr l)"
    and "calculatePBKDF2 pf (HASH_ALGORITHM ! nat (hashType l)) (saltArray l) (saltArraySize l)
           (iterationCount l) (passwordBytes l) (passwordBytesSize l) errorBufferSize_main = Inr k"
    and "errorBuffer k \<noteq> []"
  shows "\<exists>out. tmain pf argv = Inr out \<and> returnValue out = 2 \<and> stdout out = [] \<and>
           stderr out = [errorBuffer k]"
  using assms by (simp add: tmain_def tmain_derive_def Exit_def)

theorem tmain_derivation_failure_witness:
  "\<exists>out. tmain no_provider [''pbkdf2'', ''1'', ''0'', ''1'', ''pw''] = Inr out \<and>
     returnValue out = 2 \<and> stdout out = [] \<and>
     stderr out = [''Error 0xc0000225 returned by BCryptOpenAlgorithmProvider'' @ [CHR 0x0A]]"
proof -
  let ?argv = "[''pbkdf2'', ''1'', ''0'', ''1'', ''pw'']"
  let ?l = "\<lparr>doItRight = False, hashType = 0, salt = 0, saltArray = [0, 0, 0, 0],
      saltArraySize = 4, releaseSalt = False, iterationCount = 1,
      passwordBytes = [0x70, 0, 0x77, 0], passwordBytesSize = 4, releasePassword = False,
      the_errno = 0\<rparr>"
  let ?k = "\<lparr>errorBuffer = ''Error 0xc0000225 returned by BCryptOpenAlgorithmProvider'' @ [CHR 0x0A],
      pDerivedKey = None, derivedKeySize = 0\<rparr>"
  have a: "5 \<le> length ?argv" by simp
  have l: "tmain_arguments no_provider ?argv = Inr (Inr ?l)"
    by (simp add: parser_defs main_defs)
  have k: "calculatePBKDF2 no_provider (HASH_ALGORITHM ! nat (hashType ?l)) (saltArray ?l)
      (saltArraySize ?l) (iterationCount ?l) (passwordBytes ?l) (passwordBytesSize ?l)
      errorBufferSize_main = Inr ?k"
    by (simp add: parser_defs main_defs)
  have e: "errorBuffer ?k \<noteq> []" by simp
  from tmain_derivation_failure[OF a l k e] show ?thesis by simp
qed




text \<open>
  Beside the derivation step, a failed allocation of the salt bytes in Correct mode ends
  the run with exit code 2 as well, and too few arguments end it with exit code 1.
\<close>

lemma tmain_salt_allocation_refused:
  "tmain no_salt_memory [''pbkdf2'', ''1'', ''0010'', ''1000'', ''pw'', ''x''] =
     Inr \<lparr>returnValue = 2, stdout = [],
          stderr = [''Could not allocate 0 bytes for hex conversion byte array'' @ [CHR 0x0A]],
          released = []\<rparr>"
  by (simp add: parser_defs main_defs hex_defs no_salt_memory_def)

lemma tmain_usage:
  "length argv < 5 \<Longrightarrow> tmain pf argv = Inr (Exit 1 [] usage False False False)"
  by (simp add: tmain_def usage_def tcscpy_s_def errorBufferSize_main_def sizeof_TCHAR_def)

text \<open>
  Claim C5 says that the encoder gives the empty text for the empty byte sequence. It does
  not: \<^verbatim>\<open>resultSize\<close> is 0, the loop stores nothing, and \<^verbatim>\<open>pActResult--\<close> followed by the
  store of the terminator writes one element in front of the block. When \<^verbatim>\<open>malloc(0)\<close>
  gives NULL, so does the function. \<^verbatim>\<open>_tmain\<close> calls it so in Correct mode with an empty
  salt argument.
\<close>

theorem bytesToHex_empty:
  "bytesToHex m sz [] = (if m 0 then Inl OutOfBounds else Inr None) \<and>
   tmain sample_platform [''pbkdf2'', ''1'', [], ''1000'', ''pw'', ''x''] = Inl OutOfBounds"
  by (simp add: bytesToHex_def alloc_def put_back_def parser_defs main_defs
      hexStringToByteArray_def)

text \<open>
  Claim C7. The hash type, an integer from 1 to 5, selects the algorithm by the table
  \<^verbatim>\<open>HASH_ALGORITHM\<close> at the index one less: 1 selects SHA-1, 2 SHA-256, 3 SHA-384, and
  both 4 and 5 select SHA-512, the same identifier and so the same algorithm. The
  selection is a function of the argument; the second part follows the argument from its
  text through \<^verbatim>\<open>getIntegerArg\<close> to the identifier passed on.
\<close>

theorem hash_algorithm_selection:
  "map (\<lambda>i. HASH_ALGORITHM ! nat (i - 1)) [1, 2, 3, 4, 5] =
     [BCRYPT_SHA1_ALGORITHM, BCRYPT_SHA256_ALGORITHM, BCRYPT_SHA384_ALGORITHM,
      BCRYPT_SHA512_ALGORITHM, BCRYPT_SHA512_ALGORITHM] \<and>
   map (\<lambda>t. case get_hash_type [program, t, saltArg, iterationArg, passwordArg]
                    (l\<lparr>the_errno := 0\<rparr>) of
              Inr (Inr l') \<Rightarrow> Some (hashType l' + 1, HASH_ALGORITHM ! nat (hashType l'))
            | _ \<Rightarrow> None)
       [''1'', ''2'', ''3'', ''4'', ''5''] =
     [Some (1, ''SHA1''), Some (2, ''SHA256''), Some (3, ''SHA384''), Some (4, ''SHA512''),
      Some (5, ''SHA512'')]"
  by (simp add: parser_defs main_defs)

end
